theory Spec2Isabelle
  imports Complex_Main
begin

section \<open>The MT5 TCP bridge (server.py)\<close>

text \<open>
  The program has two kinds of thread. One daemon thread runs \<open>tcp_server\<close>: it accepts
  one TCP connection of the MQL5 client at a time, hands it the oldest queued command and
  puts the reply on \<open>response_queue\<close>. Every HTTP endpoint calls
  \<open>send_command_to_mt5\<close>, which puts a command on \<open>command_queue\<close> and polls
  \<open>response_queue\<close> every 0.1 s until a timeout. Both queues are module-level
  \<open>queue.Queue\<close> objects: unbounded, first in first out, each operation atomic.

  The model keeps the two queues and everything the acceptor thread remembers from one
  connection to the next in one record. Exceptions are values, the sockets' behaviour is
  an input, the wall clock is a real number of seconds, and the library functions
  \<open>json.dumps\<close> (followed by \<open>encode\<close>) and \<open>json.loads\<close> (after \<open>decode\<close>) are
  parameters \<open>dumps\<close> and \<open>loads\<close>, so that every theorem below holds for the real
  library functions whatever they compute; \<open>loads\<close> answers \<open>None\<close> where the library
  raises. Three things are taken for granted: \<open>print\<close> and \<open>json.dumps\<close> do not raise,
  and a peer that stops sending closes the stream, so that \<open>recv\<close> returns.
\<close>

subsection \<open>Data\<close>

type_synonym bytes = string

text \<open>The exceptions that reach \<open>except Exception\<close> in \<open>tcp_server\<close>: a socket call that
  fails, and the read of the local variable \<open>response\<close> before any assignment.\<close>

datatype exn = OSError | UnboundLocalError

text \<open>What the server calls on an accepted socket, in order.\<close>

datatype call = Sendall bytes | Close

text \<open>One call of \<open>client_socket.recv(4096)\<close>: bytes (none when the peer has closed the
  stream) or an exception.\<close>

datatype recv_result = Data bytes | RecvRaises

text \<open>
  An accepted connection, seen from the server: whether \<open>sendall\<close> raises on it, and
  what the successive calls of \<open>recv\<close> give once the peer has read the server's message.
  When the list is used up the peer has closed the stream, and \<open>recv\<close> gives \<open>b''\<close>.
\<close>

record connection =
  sendall_raises :: bool
  peer :: "bytes \<Rightarrow> recv_result list"

text \<open>What \<open>server_socket.accept()\<close> does in one turn of the loop.\<close>

datatype accepted = AcceptRaises | is_Accepted: Accepted connection

text \<open>The lines \<open>tcp_server\<close> prints.\<close>

datatype 'r line = Connected | Sent bytes | Received 'r | ServerError exn

text \<open>
  The shared state: the two module-level queues, the acceptor's local variable
  \<open>response\<close> (\<open>None\<close> while unbound; it lives across the turns of \<open>while True\<close>), what
  the acceptor printed, and the calls it made on each accepted socket.
\<close>

record ('c, 'r) bridge =
  command_queue :: "'c list"
  response_queue :: "'r list"
  response :: "'r option"
  stdout :: "'r line list"
  sockets :: "call list list"

definition fresh :: "('c, 'r) bridge" where
  "fresh = \<lparr>command_queue = [], response_queue = [], response = None, stdout = [], sockets = []\<rparr>"

subsection \<open>The acceptor thread: \<open>tcp_server\<close>\<close>

text \<open>
  The inner \<open>while True\<close> of \<open>tcp_server\<close>: read a chunk, stop at an empty one, otherwise
  append it and try to parse all that has been read so far; a parse that raises is
  swallowed by the bare \<open>except\<close> and the loop reads on.
\<close>

datatype 'r framing = Parsed 'r | Eof | RecvFailed

fun recv_loop :: "(bytes \<Rightarrow> 'r option) \<Rightarrow> bytes \<Rightarrow> recv_result list \<Rightarrow> 'r framing" where
  "recv_loop loads response_data [] = Eof"
| "recv_loop loads response_data (RecvRaises # rs) = RecvFailed"
| "recv_loop loads response_data (Data chunk # rs) =
     (if chunk = [] then Eof
      else (case loads (response_data @ chunk) of
              Some r \<Rightarrow> Parsed r
            | None \<Rightarrow> recv_loop loads (response_data @ chunk) rs))"

text \<open>The two statements after the read loop: print \<open>response\<close>, put it on the queue.\<close>

definition deliver :: "('c, 'r) bridge \<Rightarrow> (exn + unit) \<times> ('c, 'r) bridge" where
  "deliver st =
     (case response st of
        None \<Rightarrow> (Inl UnboundLocalError, st)
      | Some r \<Rightarrow>
          (Inr (), st\<lparr>stdout := stdout st @ [Received r],
                      response_queue := response_queue st @ [r]\<rparr>))"

definition waiting :: bytes where
  "waiting = ''{\"status\":\"waiting\"}''"

text \<open>
  The body of the \<open>try\<close> after \<open>accept\<close> has returned: the result (an exception or normal
  completion), the calls made on the socket, and the new state.
\<close>

definition handle_client ::
  "('c \<Rightarrow> bytes) \<Rightarrow> (bytes \<Rightarrow> 'r option) \<Rightarrow> connection \<Rightarrow> ('c, 'r) bridge
     \<Rightarrow> (exn + unit) \<times> call list \<times> ('c, 'r) bridge" where
  "handle_client dumps loads conn st =
     (case command_queue st of
        command # rest \<Rightarrow>
          (let st1 = st\<lparr>command_queue := rest\<rparr>;
               command_json = dumps command
           in if sendall_raises conn then (Inl OSError, [Sendall command_json], st1)
              else
                (let st2 = st1\<lparr>stdout := stdout st1 @ [Sent (take 100 command_json)]\<rparr>
                 in case recv_loop loads [] (peer conn command_json) of
                      RecvFailed \<Rightarrow> (Inl OSError, [Sendall command_json], st2)
                    | Eof \<Rightarrow>
                        (case deliver st2 of
                           (Inl e, st3) \<Rightarrow> (Inl e, [Sendall command_json], st3)
                         | (Inr u, st3) \<Rightarrow> (Inr (), [Sendall command_json, Close], st3))
                    | Parsed r \<Rightarrow>
                        (case deliver (st2\<lparr>response := Some r\<rparr>) of
                           (Inl e, st3) \<Rightarrow> (Inl e, [Sendall command_json], st3)
                         | (Inr u, st3) \<Rightarrow> (Inr (), [Sendall command_json, Close], st3))))
      | [] \<Rightarrow>
          (if sendall_raises conn then (Inl OSError, [Sendall waiting], st)
           else (Inr (), [Sendall waiting, Close], st)))"

text \<open>
  One turn of the outer \<open>while True\<close>. \<open>attempt\<close> is the \<open>try\<close> block: \<open>accept\<close>, the
  line that announces the connection, then the body above. \<open>serve\<close> adds the handler
  \<open>except Exception as e\<close>, which prints the error; after it, as after a normal end of
  the block, the loop is at \<open>accept\<close> again.
\<close>

definition attempt ::
  "('c \<Rightarrow> bytes) \<Rightarrow> (bytes \<Rightarrow> 'r option) \<Rightarrow> ('c, 'r) bridge \<Rightarrow> accepted
     \<Rightarrow> (exn + unit) \<times> ('c, 'r) bridge" where
  "attempt dumps loads st a =
     (case a of
        AcceptRaises \<Rightarrow> (Inl OSError, st)
      | Accepted conn \<Rightarrow>
          (case handle_client dumps loads conn (st\<lparr>stdout := stdout st @ [Connected]\<rparr>) of
             (res, calls, st') \<Rightarrow> (res, st'\<lparr>sockets := sockets st' @ [calls]\<rparr>)))"

definition serve ::
  "('c \<Rightarrow> bytes) \<Rightarrow> (bytes \<Rightarrow> 'r option) \<Rightarrow> ('c, 'r) bridge \<Rightarrow> accepted \<Rightarrow> ('c, 'r) bridge" where
  "serve dumps loads st a =
     (case attempt dumps loads st a of
        (Inl e, st') \<Rightarrow> st'\<lparr>stdout := stdout st' @ [ServerError e]\<rparr>
      | (Inr u, st') \<Rightarrow> st')"

text \<open>The loop over the successive outcomes of \<open>accept\<close>.\<close>

definition tcp_server ::
  "('c \<Rightarrow> bytes) \<Rightarrow> (bytes \<Rightarrow> 'r option) \<Rightarrow> accepted list \<Rightarrow> ('c, 'r) bridge \<Rightarrow> ('c, 'r) bridge" where
  "tcp_server dumps loads as st = foldl (serve dumps loads) st as"

subsection \<open>The callers: \<open>send_command_to_mt5\<close>\<close>

datatype http_exception = HTTPException (status_code: nat) (detail: string)

datatype 'r outcome = Returned 'r | Raised http_exception

text \<open>
  One turn of the wait loop of a caller that runs alone, entered at clock reading \<open>now\<close>:
  the test \<open>time.time() - start < timeout\<close>, then the test of the response queue and the
  \<open>get\<close>. \<open>None\<close> is the turn that ends in \<open>time.sleep(0.1)\<close>; past the deadline the
  function raises.
\<close>

definition poll ::
  "real \<Rightarrow> real \<Rightarrow> real \<Rightarrow> ('c, 'r) bridge \<Rightarrow> 'r outcome option \<times> ('c, 'r) bridge" where
  "poll start timeout now st =
     (if now - start < timeout then
        (case response_queue st of
           r # rs \<Rightarrow> (Some (Returned r), st\<lparr>response_queue := rs\<rparr>)
         | [] \<Rightarrow> (None, st))
      else (Some (Raised (HTTPException 504 ''MT5 timeout - EA not connecting'')), st))"

text \<open>
  The wait loop of a caller that runs alone: nothing else touches the queues while it
  waits (no client connects, no other caller runs), a sleep lasts the 0.1 s asked for and
  nothing else takes time. The result is the outcome, the clock reading at which it is
  reached, and the state.
\<close>

function wait_for_response ::
  "real \<Rightarrow> real \<Rightarrow> real \<Rightarrow> ('c, 'r) bridge \<Rightarrow> 'r outcome \<times> real \<times> ('c, 'r) bridge" where
  "wait_for_response start timeout now st =
     (case poll start timeout now st of
        (Some out, st') \<Rightarrow> (out, now, st')
      | (None, st') \<Rightarrow> wait_for_response start timeout (now + 1 / 10) st')"
  by pat_completeness auto
termination
proof (relation "measure (\<lambda>(start, timeout, now, st). nat \<lceil>(timeout - (now - start)) * 10\<rceil>)")
  show "wf (measure (\<lambda>(start :: real, timeout :: real, now :: real, st :: ('c, 'r) bridge).
              nat \<lceil>(timeout - (now - start)) * 10\<rceil>))"
    by simp
next
  fix start timeout now :: real and st st' :: "('c, 'r) bridge" and out :: "'r outcome option"
  assume p: "(out, st') = poll start timeout now st" and n: "out = None"
  have "now - start < timeout"
    using p n by (auto simp: poll_def split: if_splits list.splits)
  then have pos: "0 < \<lceil>(timeout - (now - start)) * 10\<rceil>"
    by simp
  have "(timeout - (now + 1 / 10 - start)) * 10 = (timeout - (now - start)) * 10 - 1"
    by (simp add: algebra_simps)
  then have "\<lceil>(timeout - (now + 1 / 10 - start)) * 10\<rceil> = \<lceil>(timeout - (now - start)) * 10\<rceil> - 1"
    by (simp only: ceiling_diff_one)
  with pos show "((start, timeout, now + 1 / 10, st'), (start, timeout, now, st))
               \<in> measure (\<lambda>(start, timeout, now, st). nat \<lceil>(timeout - (now - start)) * 10\<rceil>)"
    by simp
qed

definition send_command_to_mt5 ::
  "'c \<Rightarrow> real \<Rightarrow> real \<Rightarrow> ('c, 'r) bridge \<Rightarrow> 'r outcome \<times> real \<times> ('c, 'r) bridge" where
  "send_command_to_mt5 command timeout now st =
     wait_for_response now timeout now (st\<lparr>command_queue := command_queue st @ [command]\<rparr>)"

subsection \<open>The HTTP endpoints\<close>

text \<open>The values the endpoints put into a command dict.\<close>

datatype pyval =
    PyStr string
  | PyInt int
  | PyFloat real
  | PyList "pyval list"
  | PyDict "(string \<times> pyval) list"

record OrderCommand =
  action :: string
  order_type :: string
  symbol :: string
  price :: real
  sl :: real
  tp_levels :: "real list"
  lot_size :: real
  deviation :: int
  comment :: string
  magic_number :: int
  partial_close_percent :: real

text \<open>The command dict each endpoint builds.\<close>

definition place_order_command :: "OrderCommand \<Rightarrow> pyval" where
  "place_order_command order =
     PyDict [(''action'', PyStr ''PLACE_ORDER''),
             (''data'', PyDict [(''order_type'', PyStr (order_type order)),
                               (''symbol'', PyStr (symbol order)),
                               (''price'', PyFloat (price order)),
                               (''sl'', PyFloat (sl order)),
                               (''tp_levels'', PyList (map PyFloat (tp_levels order))),
                               (''lot_size'', PyFloat (lot_size order)),
                               (''deviation'', PyInt (deviation order)),
                               (''comment'', PyStr (comment order)),
                               (''magic_number'', PyInt (magic_number order)),
                               (''partial_close_percent'', PyFloat (partial_close_percent order))])]"

definition get_positions_command :: pyval where
  "get_positions_command = PyDict [(''action'', PyStr ''GET_POSITIONS'')]"

definition get_orders_command :: pyval where
  "get_orders_command = PyDict [(''action'', PyStr ''GET_ORDERS'')]"

definition delete_order_command :: "int \<Rightarrow> pyval" where
  "delete_order_command ticket =
     PyDict [(''action'', PyStr ''DELETE_ORDER''), (''data'', PyDict [(''ticket'', PyInt ticket)])]"

definition close_position_command :: "int \<Rightarrow> pyval" where
  "close_position_command ticket =
     PyDict [(''action'', PyStr ''CLOSE_POSITION''), (''data'', PyDict [(''ticket'', PyInt ticket)])]"

definition get_stats_command :: pyval where
  "get_stats_command = PyDict [(''action'', PyStr ''GET_STATS'')]"

definition safe_shutdown_command :: pyval where
  "safe_shutdown_command = PyDict [(''action'', PyStr ''SAFE_SHUTDOWN'')]"

text \<open>
  Each endpoint calls \<open>send_command_to_mt5\<close> with the default timeout of 10 s inside
  \<open>try\<close>, and \<open>except Exception as e\<close> raises \<open>HTTPException(status_code=500,
  detail=str(e))\<close>. \<open>HTTPException\<close> is a subclass of \<open>Exception\<close>, so the handler catches
  the one \<open>send_command_to_mt5\<close> raises. The text \<open>str(e)\<close> is the framework's; it is the
  parameter \<open>str\<close>.
\<close>

definition create_order ::
  "(http_exception \<Rightarrow> string) \<Rightarrow> OrderCommand \<Rightarrow> real \<Rightarrow> (pyval, 'r) bridge
     \<Rightarrow> 'r outcome \<times> real \<times> (pyval, 'r) bridge" where
  "create_order str order now st =
     (case send_command_to_mt5 (place_order_command order) 10 now st of
        (Returned r, t, st') \<Rightarrow> (Returned r, t, st')
      | (Raised e, t, st') \<Rightarrow> (Raised (HTTPException 500 (str e)), t, st'))"

definition get_positions ::
  "(http_exception \<Rightarrow> string) \<Rightarrow> real \<Rightarrow> (pyval, 'r) bridge
     \<Rightarrow> 'r outcome \<times> real \<times> (pyval, 'r) bridge" where
  "get_positions str now st =
     (case send_command_to_mt5 get_positions_command 10 now st of
        (Returned r, t, st') \<Rightarrow> (Returned r, t, st')
      | (Raised e, t, st') \<Rightarrow> (Raised (HTTPException 500 (str e)), t, st'))"

definition get_orders ::
  "(http_exception \<Rightarrow> string) \<Rightarrow> real \<Rightarrow> (pyval, 'r) bridge
     \<Rightarrow> 'r outcome \<times> real \<times> (pyval, 'r) bridge" where
  "get_orders str now st =
     (case send_command_to_mt5 get_orders_command 10 now st of
        (Returned r, t, st') \<Rightarrow> (Returned r, t, st')
      | (Raised e, t, st') \<Rightarrow> (Raised (HTTPException 500 (str e)), t, st'))"

definition delete_order ::
  "(http_exception \<Rightarrow> string) \<Rightarrow> int \<Rightarrow> real \<Rightarrow> (pyval, 'r) bridge
     \<Rightarrow> 'r outcome \<times> real \<times> (pyval, 'r) bridge" where
  "delete_order str ticket now st =
     (case send_command_to_mt5 (delete_order_command ticket) 10 now st of
        (Returned r, t, st') \<Rightarrow> (Returned r, t, st')
      | (Raised e, t, st') \<Rightarrow> (Raised (HTTPException 500 (str e)), t, st'))"

definition close_position ::
  "(http_exception \<Rightarrow> string) \<Rightarrow> int \<Rightarrow> real \<Rightarrow> (pyval, 'r) bridge
     \<Rightarrow> 'r outcome \<times> real \<times> (pyval, 'r) bridge" where
  "close_position str ticket now st =
     (case send_command_to_mt5 (close_position_command ticket) 10 now st of
        (Returned r, t, st') \<Rightarrow> (Returned r, t, st')
      | (Raised e, t, st') \<Rightarrow> (Raised (HTTPException 500 (str e)), t, st'))"

definition get_stats ::
  "(http_exception \<Rightarrow> string) \<Rightarrow> real \<Rightarrow> (pyval, 'r) bridge
     \<Rightarrow> 'r outcome \<times> real \<times> (pyval, 'r) bridge" where
  "get_stats str now st =
     (case send_command_to_mt5 get_stats_command 10 now st of
        (Returned r, t, st') \<Rightarrow> (Returned r, t, st')
      | (Raised e, t, st') \<Rightarrow> (Raised (HTTPException 500 (str e)), t, st'))"

definition safe_shutdown ::
  "(http_exception \<Rightarrow> string) \<Rightarrow> real \<Rightarrow> (pyval, 'r) bridge
     \<Rightarrow> 'r outcome \<times> real \<times> (pyval, 'r) bridge" where
  "safe_shutdown str now st =
     (case send_command_to_mt5 safe_shutdown_command 10 now st of
        (Returned r, t, st') \<Rightarrow> (Returned r, t, st')
      | (Raised e, t, st') \<Rightarrow> (Raised (HTTPException 500 (str e)), t, st'))"

subsection \<open>The threads together\<close>

text \<open>
  Callers and the acceptor run in different threads. A run of the program is a schedule:
  the list of the steps the threads take, each step atomic. A caller's steps are the
  entry into \<open>send_command_to_mt5\<close> (the \<open>put\<close> and the reading of \<open>start\<close>), each
  turn of its wait loop up to the \<open>sleep\<close>, the \<open>raise\<close> or the finding that the response
  queue is not empty, and then the \<open>get\<close>, which blocks while the queue is empty: another
  caller may have taken the response in between. The acceptor's step is one turn of its
  loop: it touches the command queue only at its start and the response queue only at
  its end. \<open>Elapse\<close> lets time pass. Nothing forces a caller to wake every 0.1 s, so the
  schedules include all those the program has.
\<close>

datatype 'r caller = Idle | Waiting real real | Getting | Finished "'r outcome"

record ('c, 'r) system =
  shared :: "('c, 'r) bridge"
  clock :: real
  callers :: "nat \<Rightarrow> 'r caller"

datatype 'c event = Invoke nat 'c real | Wake nat | Incoming accepted | Elapse real

definition boot :: "('c, 'r) system" where
  "boot = \<lparr>shared = fresh, clock = 0, callers = (\<lambda>i. Idle)\<rparr>"

definition step ::
  "('c \<Rightarrow> bytes) \<Rightarrow> (bytes \<Rightarrow> 'r option) \<Rightarrow> ('c, 'r) system \<Rightarrow> 'c event \<Rightarrow> ('c, 'r) system" where
  "step dumps loads s ev =
     (case ev of
        Invoke i command timeout \<Rightarrow>
          s\<lparr>shared := (shared s)\<lparr>command_queue := command_queue (shared s) @ [command]\<rparr>,
            callers := (callers s)(i := Waiting (clock s) timeout)\<rparr>
      | Wake i \<Rightarrow>
          (case callers s i of
             Waiting start timeout \<Rightarrow>
               if clock s - start < timeout then
                 (if response_queue (shared s) \<noteq> [] then s\<lparr>callers := (callers s)(i := Getting)\<rparr>
                  else s)
               else
                 s\<lparr>callers := (callers s)
                       (i := Finished (Raised (HTTPException 504 ''MT5 timeout - EA not connecting'')))\<rparr>
           | Getting \<Rightarrow>
               (case response_queue (shared s) of
                  r # rs \<Rightarrow>
                    s\<lparr>shared := (shared s)\<lparr>response_queue := rs\<rparr>,
                      callers := (callers s)(i := Finished (Returned r))\<rparr>
                | [] \<Rightarrow> s)
           | Idle \<Rightarrow> s
           | Finished out \<Rightarrow> s)
      | Incoming a \<Rightarrow> s\<lparr>shared := serve dumps loads (shared s) a\<rparr>
      | Elapse d \<Rightarrow> s\<lparr>clock := clock s + d\<rparr>)"

definition run ::
  "('c \<Rightarrow> bytes) \<Rightarrow> (bytes \<Rightarrow> 'r option) \<Rightarrow> ('c, 'r) system \<Rightarrow> 'c event list \<Rightarrow> ('c, 'r) system" where
  "run dumps loads s evs = foldl (step dumps loads) s evs"

subsection \<open>A small instance of the library functions\<close>

text \<open>
  The general theorems hold for every \<open>dumps\<close> and \<open>loads\<close>. To run the model on
  concrete inputs, a command is written as its JSON text, the string \<open>json.dumps\<close> gives
  for it, so that \<open>dumps\<close> is the identity there; and \<open>loads\<close> is \<open>json.loads\<close> on two
  kinds of document: a run of decimal digits without a leading zero is a JSON number, and
  a pair of double quotes around printable ASCII characters other than the double quote
  and the backslash is a JSON string. \<open>loads_scalar\<close> refuses every other buffer; the
  examples feed it buffers of these two kinds, their proper prefixes and the empty
  buffer, and on those \<open>json.loads\<close> answers the same.
\<close>

definition text_dumps :: "string \<Rightarrow> bytes" where
  "text_dumps command = command"

datatype scalar = Number nat | Text string

definition digit :: "char \<Rightarrow> bool" where
  "digit c = (c \<in> set ''0123456789'')"

definition plain :: "char \<Rightarrow> bool" where
  "plain c = (c \<noteq> CHR 0x22 \<and> c \<noteq> CHR 0x5C \<and> 32 \<le> (of_char c :: nat) \<and> (of_char c :: nat) < 128)"

definition loads_scalar :: "bytes \<Rightarrow> scalar option" where
  "loads_scalar b =
     (if b \<noteq> [] \<and> list_all digit b \<and> (length b = 1 \<or> hd b \<noteq> CHR ''0'')
      then Some (Number (foldl (\<lambda>n c. 10 * n + (of_char c - 48)) 0 b))
      else if 2 \<le> length b \<and> hd b = CHR 0x22 \<and> last b = CHR 0x22
                \<and> list_all plain (butlast (tl b))
      then Some (Text (butlast (tl b)))
      else None)"

text \<open>A client that answers the message \<open>command_json\<close> with the chunks \<open>rs\<close> and then
  closes the stream, and that closes at once on any other message; and a connection on
  which \<open>sendall\<close> raises.\<close>

definition replies :: "bytes \<Rightarrow> recv_result list \<Rightarrow> connection" where
  "replies command_json rs =
     \<lparr>sendall_raises = False, peer = (\<lambda>m. if m = command_json then rs else [])\<rparr>"

definition broken :: connection where
  "broken = \<lparr>sendall_raises = True, peer = (\<lambda>m. [])\<rparr>"

subsection \<open>The words of the specification\<close>





section \<open>Theorems\<close>

declare wait_for_response.simps [simp del]

subsection \<open>The idle reply\<close>



subsection \<open>The timeout\<close>

text \<open>
  A caller that finds the response queue empty at every turn of its loop leaves it by
  the \<open>raise\<close>, at a clock reading between the deadline and a tenth of a second
  after it.
\<close>

lemma wait_for_response_timeout:
  assumes "response_queue st = []" and "now - start < timeout + 1 / 10"
  shows "\<exists>t. wait_for_response start timeout now st =
               (Raised (HTTPException 504 ''MT5 timeout - EA not connecting''), t, st)
             \<and> start + timeout \<le> t \<and> t < start + timeout + 1 / 10"
  using assms
proof (induction start timeout now st rule: wait_for_response.induct)
  case (1 start timeout now st)
  show ?case
  proof (cases "now - start < timeout")
    case True
    with "1.prems" have p: "poll start timeout now st = (None, st)"
      by (simp add: poll_def)
    from True have "now + 1 / 10 - start < timeout + 1 / 10"
      by simp
    with "1.IH" [OF p [symmetric] refl "1.prems"(1)]
    have "\<exists>t. wait_for_response start timeout (now + 1 / 10) st =
               (Raised (HTTPException 504 ''MT5 timeout - EA not connecting''), t, st)
             \<and> start + timeout \<le> t \<and> t < start + timeout + 1 / 10"
      by blast
    moreover have "wait_for_response start timeout now st
                     = wait_for_response start timeout (now + 1 / 10) st"
      by (subst wait_for_response.simps) (simp add: p)
    ultimately show ?thesis by simp
  next
    case False
    then have "poll start timeout now st =
                 (Some (Raised (HTTPException 504 ''MT5 timeout - EA not connecting'')), st)"
      by (simp add: poll_def)
    then have "wait_for_response start timeout now st =
                 (Raised (HTTPException 504 ''MT5 timeout - EA not connecting''), now, st)"
      by (subst wait_for_response.simps) simp
    with False "1.prems"(2) show ?thesis by simp
  qed
qed



lemma send_command_times_out:
  assumes "response_queue st = []" and "0 \<le> timeout"
  shows "fst (send_command_to_mt5 command timeout now st) =
           Raised (HTTPException 504 ''MT5 timeout - EA not connecting'')"
proof -
  have "response_queue (st\<lparr>command_queue := command_queue st @ [command]\<rparr>) = []"
    using assms(1) by simp
  moreover have "now - now < timeout + 1 / 10"
    using assms(2) by simp
  ultimately obtain t where
    "wait_for_response now timeout now (st\<lparr>command_queue := command_queue st @ [command]\<rparr>) =
       (Raised (HTTPException 504 ''MT5 timeout - EA not connecting''), t,
        st\<lparr>command_queue := command_queue st @ [command]\<rparr>)"
    using wait_for_response_timeout by blast
  then show ?thesis by (simp add: send_command_to_mt5_def)
qed

text \<open>
  The lower bound needs neither the exact sleeps nor the empty queue: in every schedule,
  whatever the other threads do, a turn of a caller's loop ends in the \<open>raise\<close> only at a
  clock reading that is at least \<open>timeout\<close> past its \<open>start\<close>, and what it raises is the
  504.
\<close>

lemma wake_raises_after_deadline:
  assumes "callers s i = Waiting start timeout"
    and "callers (step dumps loads s (Wake i)) i = Finished (Raised e)"
  shows "start + timeout \<le> clock s \<and> e = HTTPException 504 ''MT5 timeout - EA not connecting''"
  using assms
  by (auto simp: step_def split: if_splits)

subsection \<open>A call as a schedule\<close>

text \<open>
  \<open>send_command_to_mt5\<close>, as defined above for a caller that runs alone, is one of the
  schedules: the entry into the call, then turns of the wait loop a tenth of a second
  apart, until a turn ends the call by the \<open>raise\<close> or finds a response, which the next
  step takes (a step of a caller that has finished does nothing). The outcome, the clock
  and the shared state at the end of that schedule are those the function gives.
\<close>

lemma wait_for_response_schedule:
  assumes "callers s i = Waiting start timeout" and "clock s = now" and "shared s = st"
  shows "\<exists>n. run dumps loads s (concat (replicate n [Wake i, Elapse (1 / 10)]) @ [Wake i, Wake i]) =
           s\<lparr>shared := snd (snd (wait_for_response start timeout now st)),
             clock := fst (snd (wait_for_response start timeout now st)),
             callers := (callers s)(i := Finished (fst (wait_for_response start timeout now st)))\<rparr>"
  using assms
proof (induction start timeout now st arbitrary: s rule: wait_for_response.induct)
  case (1 start timeout now st)
  obtain out st' where p: "poll start timeout now st = (out, st')"
    by (cases "poll start timeout now st")
  show ?case
  proof (cases out)
    case (Some res)
    with p have w: "wait_for_response start timeout now st = (res, now, st')"
      by (subst wait_for_response.simps) simp
    have "run dumps loads s (concat (replicate 0 [Wake i, Elapse (1 / 10)]) @ [Wake i, Wake i]) =
            s\<lparr>shared := st', clock := now, callers := (callers s)(i := Finished res)\<rparr>"
      using "1.prems" p Some
      by (auto simp: run_def step_def poll_def split: if_splits list.splits)
    with w show ?thesis
      by (metis fst_conv snd_conv)
  next
    case None
    with p have w: "wait_for_response start timeout now st
                      = wait_for_response start timeout (now + 1 / 10) st'"
      by (subst wait_for_response.simps) simp
    define s1 where "s1 = s\<lparr>shared := st', clock := now + 1 / 10\<rparr>"
    have s1: "run dumps loads s [Wake i, Elapse (1 / 10)] = s1"
      using "1.prems" p None
      by (auto simp: run_def step_def poll_def s1_def split: if_splits list.splits)
    have "callers s1 i = Waiting start timeout" "clock s1 = now + 1 / 10" "shared s1 = st'"
      using "1.prems" by (simp_all add: s1_def)
    from "1.IH" [OF p [symmetric] None this] obtain n where
      n: "run dumps loads s1 (concat (replicate n [Wake i, Elapse (1 / 10)]) @ [Wake i, Wake i]) =
            s1\<lparr>shared := snd (snd (wait_for_response start timeout (now + 1 / 10) st')),
               clock := fst (snd (wait_for_response start timeout (now + 1 / 10) st')),
               callers := (callers s1)
                 (i := Finished (fst (wait_for_response start timeout (now + 1 / 10) st')))\<rparr>"
      by blast
    have "run dumps loads s (concat (replicate (Suc n) [Wake i, Elapse (1 / 10)]) @ [Wake i, Wake i])
            = run dumps loads s1 (concat (replicate n [Wake i, Elapse (1 / 10)]) @ [Wake i, Wake i])"
      using s1 by (simp add: run_def)
    with n w have "run dumps loads s (concat (replicate (Suc n) [Wake i, Elapse (1 / 10)]) @ [Wake i, Wake i]) =
            s\<lparr>shared := snd (snd (wait_for_response start timeout now st)),
              clock := fst (snd (wait_for_response start timeout now st)),
              callers := (callers s)(i := Finished (fst (wait_for_response start timeout now st)))\<rparr>"
      by (simp add: s1_def)
    then show ?thesis by blast
  qed
qed

lemma send_command_to_mt5_schedule:
  "\<exists>n. run dumps loads s
          ([Invoke i command timeout] @ concat (replicate n [Wake i, Elapse (1 / 10)])
            @ [Wake i, Wake i]) =
        s\<lparr>shared := snd (snd (send_command_to_mt5 command timeout (clock s) (shared s))),
          clock := fst (snd (send_command_to_mt5 command timeout (clock s) (shared s))),
          callers := (callers s)
            (i := Finished (fst (send_command_to_mt5 command timeout (clock s) (shared s))))\<rparr>"
proof -
  define s0 where "s0 = step dumps loads s (Invoke i command timeout)"
  have c: "callers s0 i = Waiting (clock s) timeout" "clock s0 = clock s"
    "shared s0 = (shared s)\<lparr>command_queue := command_queue (shared s) @ [command]\<rparr>"
    by (simp_all add: s0_def step_def)
  from wait_for_response_schedule [OF c, of dumps loads] obtain n where
    "run dumps loads s0 (concat (replicate n [Wake i, Elapse (1 / 10)]) @ [Wake i, Wake i]) =
       s0\<lparr>shared := snd (snd (send_command_to_mt5 command timeout (clock s) (shared s))),
          clock := fst (snd (send_command_to_mt5 command timeout (clock s) (shared s))),
          callers := (callers s0)
            (i := Finished (fst (send_command_to_mt5 command timeout (clock s) (shared s))))\<rparr>"
    unfolding send_command_to_mt5_def by blast
  moreover have "run dumps loads s
          ([Invoke i command timeout] @ concat (replicate n [Wake i, Elapse (1 / 10)])
            @ [Wake i, Wake i])
        = run dumps loads s0 (concat (replicate n [Wake i, Elapse (1 / 10)]) @ [Wake i, Wake i])"
    by (simp add: run_def s0_def)
  ultimately show ?thesis
    by (auto simp: s0_def step_def intro!: exI [of _ n])
qed

subsection \<open>What the endpoints make of the timeout\<close>

text \<open>The only exception \<open>send_command_to_mt5\<close> raises is the timeout.\<close>

lemma wait_for_response_raises_504:
  assumes "fst (wait_for_response start timeout now st) = Raised e"
  shows "e = HTTPException 504 ''MT5 timeout - EA not connecting''"
  using assms
proof (induction start timeout now st rule: wait_for_response.induct)
  case (1 start timeout now st)
  obtain out st' where p: "poll start timeout now st = (out, st')"
    by (cases "poll start timeout now st")
  show ?case
  proof (cases out)
    case None
    with p have "wait_for_response start timeout now st
                   = wait_for_response start timeout (now + 1 / 10) st'"
      by (subst wait_for_response.simps) simp
    with "1.IH" [OF p [symmetric] None] "1.prems" show ?thesis by simp
  next
    case (Some res)
    with p have "wait_for_response start timeout now st = (res, now, st')"
      by (subst wait_for_response.simps) simp
    with "1.prems" have "res = Raised e" by simp
    with p Some show ?thesis
      by (auto simp: poll_def split: if_splits list.splits)
  qed
qed

lemma send_command_raises_504:
  assumes "fst (send_command_to_mt5 command timeout now st) = Raised e"
  shows "e = HTTPException 504 ''MT5 timeout - EA not connecting''"
  using assms unfolding send_command_to_mt5_def by (rule wait_for_response_raises_504)

lemma reraise_500:
  "fst (case x of
          (Returned r, t, s) \<Rightarrow> (Returned r, t, s)
        | (Raised e, t, s) \<Rightarrow> (Raised (HTTPException 500 (str e)), t, s))
     = (case fst x of Returned r \<Rightarrow> Returned r | Raised e \<Rightarrow> Raised (HTTPException 500 (str e)))"
  by (auto split: prod.splits outcome.splits)

text \<open>
  C9. In each of the seven endpoints, whenever the call of \<open>send_command_to_mt5\<close> raises
  an exception \<open>e\<close> (the only one it raises is the timeout, with status 504), the
  endpoint raises \<open>HTTPException(500, str(e))\<close>; and every exception that leaves an
  endpoint has status 500, so none has status 504.
\<close>

theorem endpoints_answer_500:
  "(fst (send_command_to_mt5 (place_order_command order) 10 now st) = Raised e
      \<longrightarrow> fst (create_order str order now st) = Raised (HTTPException 500 (str e)))
   \<and> (fst (send_command_to_mt5 get_positions_command 10 now st) = Raised e
      \<longrightarrow> fst (get_positions str now st) = Raised (HTTPException 500 (str e)))
   \<and> (fst (send_command_to_mt5 get_orders_command 10 now st) = Raised e
      \<longrightarrow> fst (get_orders str now st) = Raised (HTTPException 500 (str e)))
   \<and> (fst (send_command_to_mt5 (delete_order_command ticket) 10 now st) = Raised e
      \<longrightarrow> fst (delete_order str ticket now st) = Raised (HTTPException 500 (str e)))
   \<and> (fst (send_command_to_mt5 (close_position_command ticket) 10 now st) = Raised e
      \<longrightarrow> fst (close_position str ticket now st) = Raised (HTTPException 500 (str e)))
   \<and> (fst (send_command_to_mt5 get_stats_command 10 now st) = Raised e
      \<longrightarrow> fst (get_stats str now st) = Raised (HTTPException 500 (str e)))
   \<and> (fst (send_command_to_mt5 safe_shutdown_command 10 now st) = Raised e
      \<longrightarrow> fst (safe_shutdown str now st) = Raised (HTTPException 500 (str e)))
   \<and> (\<forall>x. fst (create_order str order now st) = Raised x \<longrightarrow> status_code x = 500)
   \<and> (\<forall>x. fst (get_positions str now st) = Raised x \<longrightarrow> status_code x = 500)
   \<and> (\<forall>x. fst (get_orders str now st) = Raised x \<longrightarrow> status_code x = 500)
   \<and> (\<forall>x. fst (delete_order str ticket now st) = Raised x \<longrightarrow> status_code x = 500)
   \<and> (\<forall>x. fst (close_position str ticket now st) = Raised x \<longrightarrow> status_code x = 500)
   \<and> (\<forall>x. fst (get_stats str now st) = Raised x \<longrightarrow> status_code x = 500)
   \<and> (\<forall>x. fst (safe_shutdown str now st) = Raised x \<longrightarrow> status_code x = 500)"
  unfolding create_order_def get_positions_def get_orders_def delete_order_def
    close_position_def get_stats_def safe_shutdown_def reraise_500
  by (simp split: outcome.splits)

text \<open>The seven endpoints called while nothing answers: each raises status 500, with the
  timeout's text as detail when \<open>str\<close> gives the detail.\<close>

theorem endpoints_answer_500_witness:
  "fst (create_order detail
          \<lparr>action = ''PLACE_ORDER'', order_type = ''BUY_LIMIT'', symbol = ''XAUUSD'', price = 2000,
            sl = 1990, tp_levels = [2010, 2020], lot_size = 1 / 10, deviation = 3,
            comment = ''Claude AI'', magic_number = 20250117, partial_close_percent = 20\<rparr>
          0 (fresh :: (pyval, scalar) bridge))
     = Raised (HTTPException 500 ''MT5 timeout - EA not connecting'')
   \<and> fst (get_positions detail 0 (fresh :: (pyval, scalar) bridge))
     = Raised (HTTPException 500 ''MT5 timeout - EA not connecting'')
   \<and> fst (get_orders detail 0 (fresh :: (pyval, scalar) bridge))
     = Raised (HTTPException 500 ''MT5 timeout - EA not connecting'')
   \<and> fst (delete_order detail 7 0 (fresh :: (pyval, scalar) bridge))
     = Raised (HTTPException 500 ''MT5 timeout - EA not connecting'')
   \<and> fst (close_position detail 7 0 (fresh :: (pyval, scalar) bridge))
     = Raised (HTTPException 500 ''MT5 timeout - EA not connecting'')
   \<and> fst (get_stats detail 0 (fresh :: (pyval, scalar) bridge))
     = Raised (HTTPException 500 ''MT5 timeout - EA not connecting'')
   \<and> fst (safe_shutdown detail 0 (fresh :: (pyval, scalar) bridge))
     = Raised (HTTPException 500 ''MT5 timeout - EA not connecting'')
   \<and> status_code (HTTPException 500 ''MT5 timeout - EA not connecting'') = 500"
proof -
  have q: "response_queue (fresh :: (pyval, scalar) bridge) = []"
    by (simp add: fresh_def)
  have t: "fst (send_command_to_mt5 command 10 0 (fresh :: (pyval, scalar) bridge)) =
             Raised (HTTPException 504 ''MT5 timeout - EA not connecting'')" for command
    using q by (rule send_command_times_out) simp
  show ?thesis
    using endpoints_answer_500
      [of "\<lparr>action = ''PLACE_ORDER'', order_type = ''BUY_LIMIT'', symbol = ''XAUUSD'', price = 2000,
            sl = 1990, tp_levels = [2010, 2020], lot_size = 1 / 10, deviation = 3,
            comment = ''Claude AI'', magic_number = 20250117, partial_close_percent = 20\<rparr>"
          0 "fresh :: (pyval, scalar) bridge" "HTTPException 504 ''MT5 timeout - EA not connecting''"
          detail 7]
    by (simp add: t)
qed

subsection \<open>What each thread leaves alone\<close>


lemma handle_client_sockets:
  "sockets (snd (snd (handle_client dumps loads conn st))) = sockets st"
  by (simp add: handle_client_def deliver_def Let_def
           split: list.splits framing.splits option.splits)








subsection \<open>The command of a caller that timed out\<close>



subsection \<open>Dispatch in the order of submission\<close>













subsection \<open>Two callers, one response queue\<close>

text \<open>
  C2. Two callers are inside \<open>send_command_to_mt5\<close> before any client connects: caller 1
  with \<open>c1\<close>, then caller 2 with \<open>c2\<close>; each has found the response queue empty once and
  sleeps. The client connects, is sent \<open>c1\<close> and answers it with \<open>reply\<close>, which parses to
  \<open>r\<close>. Caller 2 wakes first, finds the queue not empty and takes what is there: its call
  returns \<open>r\<close>, the response to caller 1's command, while caller 1 is still waiting. The schedule is one the program has for every pair of
  commands and every reply that parses.
\<close>

theorem crosstalk:
  assumes "loads reply = Some r" and "reply \<noteq> []" and "0 < t1" and "1 / 10 < t2"
  shows "callers (run dumps loads boot
                    [Invoke 1 c1 t1, Wake 1, Invoke 2 c2 t2, Wake 2,
                     Incoming (Accepted (replies (dumps c1) [Data reply])),
                     Elapse (1 / 10), Wake 2, Wake 2]) 2 = Finished (Returned r)
       \<and> callers (run dumps loads boot
                    [Invoke 1 c1 t1, Wake 1, Invoke 2 c2 t2, Wake 2,
                     Incoming (Accepted (replies (dumps c1) [Data reply])),
                     Elapse (1 / 10), Wake 2, Wake 2]) 1 = Waiting 0 t1
       \<and> sockets (shared (run dumps loads boot
                    [Invoke 1 c1 t1, Wake 1, Invoke 2 c2 t2, Wake 2,
                     Incoming (Accepted (replies (dumps c1) [Data reply])),
                     Elapse (1 / 10), Wake 2, Wake 2])) = [[Sendall (dumps c1), Close]]"
  using assms
  by (simp add: run_def step_def boot_def fresh_def poll_def serve_def attempt_def
        handle_client_def deliver_def replies_def Let_def)

theorem crosstalk_witness:
  "callers (run text_dumps loads_scalar boot
              [Invoke 1 ''{\"action\": \"GET_STATS\"}'' 10, Wake 1,
               Invoke 2 ''{\"action\": \"GET_ORDERS\"}'' 10, Wake 2,
               Incoming (Accepted (replies ''{\"action\": \"GET_STATS\"}'' [Data ''1000''])),
               Elapse (1 / 10), Wake 2, Wake 2]) 2 = Finished (Returned (Number 1000))"
  using crosstalk [of loads_scalar "''1000''" "Number 1000" 10 10 text_dumps "''{\"action\": \"GET_STATS\"}''"
                      "''{\"action\": \"GET_ORDERS\"}''"]
  by (simp add: loads_scalar_def digit_def plain_def text_dumps_def)

subsection \<open>A response that arrives after the timeout\<close>

text \<open>
  The program has no record of a request apart from the two queues: the acceptor puts
  every reply it parses on \<open>response_queue\<close>, and a caller takes whatever is at the head.

  C1 as the specification words it does not hold. The first call times out after one
  second. A client then connects, is sent the command the call left behind and answers
  1000. A later call, for another command,
  returns 1000 at once: the late response is neither dropped nor kept from later callers.
\<close>

theorem late_response_counterexample:
  "fst (send_command_to_mt5 ''{\"action\": \"GET_STATS\"}'' 1 0 (fresh :: (string, scalar) bridge))
     = Raised (HTTPException 504 ''MT5 timeout - EA not connecting'')
   \<and> fst (send_command_to_mt5 ''{\"action\": \"GET_ORDERS\"}'' 1 2
           (serve text_dumps loads_scalar
              (snd (snd (send_command_to_mt5 ''{\"action\": \"GET_STATS\"}'' 1 0 fresh)))
              (Accepted (replies ''{\"action\": \"GET_STATS\"}'' [Data ''1000'']))))
     = Returned (Number 1000)"
  by (simp add: send_command_to_mt5_def wait_for_response.simps poll_def fresh_def serve_def
        attempt_def handle_client_def deliver_def replies_def text_dumps_def loads_scalar_def
        digit_def plain_def Let_def)

lemma wait_for_response_returns_head:
  assumes "response_queue st = r # rs" and "now - start < timeout"
  shows "wait_for_response start timeout now st = (Returned r, now, st\<lparr>response_queue := rs\<rparr>)"
  using assms by (subst wait_for_response.simps) (simp add: poll_def)

lemma serve_delivers:
  assumes "command_queue st = c # q" and "\<not> sendall_raises conn"
    and "recv_loop loads [] (peer conn (dumps c)) = Parsed r"
  shows "serve dumps loads st (Accepted conn) =
           st\<lparr>command_queue := q, response := Some r,
              stdout := stdout st @ [Connected, Sent (take 100 (dumps c)), Received r],
              response_queue := response_queue st @ [r],
              sockets := sockets st @ [[Sendall (dumps c), Close]]\<rparr>"
  using assms by (simp add: serve_def attempt_def handle_client_def deliver_def Let_def)

lemma wait_for_response_empty:
  assumes "response_queue st = []"
  shows "\<exists>t. wait_for_response start timeout now st =
               (Raised (HTTPException 504 ''MT5 timeout - EA not connecting''), t, st)"
  using assms
proof (induction start timeout now st rule: wait_for_response.induct)
  case (1 start timeout now st)
  show ?case
  proof (cases "now - start < timeout")
    case True
    with "1.prems" have p: "poll start timeout now st = (None, st)"
      by (simp add: poll_def)
    have "wait_for_response start timeout now st
            = wait_for_response start timeout (now + 1 / 10) st"
      by (subst wait_for_response.simps) (simp add: p)
    with "1.IH" [OF p [symmetric] refl "1.prems"] show ?thesis by simp
  next
    case False
    then have "poll start timeout now st =
                 (Some (Raised (HTTPException 504 ''MT5 timeout - EA not connecting'')), st)"
      by (simp add: poll_def)
    then show ?thesis
      by (subst wait_for_response.simps) simp
  qed
qed

text \<open>
  C1, as the code has it. A call made while both queues are empty and no client
  connects ends in the timeout. When a client connects afterwards, is sent the command
  of that call and replies with a document that parses to \<open>r\<close>, the acceptor puts \<open>r\<close> on
  the response queue, and the next call of \<open>send_command_to_mt5\<close> with a positive
  timeout, whatever its command, returns \<open>r\<close> at its first look at the queue.
\<close>

theorem late_response_goes_to_next_caller:
  assumes "command_queue st = []" and "response_queue st = []"
    and "\<not> sendall_raises conn"
    and "recv_loop loads [] (peer conn (dumps c1)) = Parsed r"
    and "0 < t2"
  shows "fst (send_command_to_mt5 c1 t1 now st)
           = Raised (HTTPException 504 ''MT5 timeout - EA not connecting'')
       \<and> response_queue
           (serve dumps loads (snd (snd (send_command_to_mt5 c1 t1 now st))) (Accepted conn)) = [r]
       \<and> fst (send_command_to_mt5 c2 t2 later
                (serve dumps loads (snd (snd (send_command_to_mt5 c1 t1 now st))) (Accepted conn)))
           = Returned r"
proof -
  let ?st1 = "st\<lparr>command_queue := [c1]\<rparr>"
  have "response_queue ?st1 = []"
    using assms(2) by simp
  then obtain t where "wait_for_response now t1 now ?st1 =
      (Raised (HTTPException 504 ''MT5 timeout - EA not connecting''), t, ?st1)"
    using wait_for_response_empty by blast
  then have first: "send_command_to_mt5 c1 t1 now st =
      (Raised (HTTPException 504 ''MT5 timeout - EA not connecting''), t, ?st1)"
    using assms(1) by (simp add: send_command_to_mt5_def)
  have "command_queue ?st1 = c1 # []"
    by simp
  from serve_delivers [where dumps = dumps and c = c1, OF this assms(3) assms(4)]
  have served: "serve dumps loads ?st1 (Accepted conn) =
      ?st1\<lparr>command_queue := [], response := Some r,
            stdout := stdout ?st1 @ [Connected, Sent (take 100 (dumps c1)), Received r],
            response_queue := response_queue ?st1 @ [r],
            sockets := sockets ?st1 @ [[Sendall (dumps c1), Close]]\<rparr>" .
  then have q: "response_queue (serve dumps loads ?st1 (Accepted conn)) = [r]"
    using assms(2) by simp
  then have "response_queue
               ((serve dumps loads ?st1 (Accepted conn))
                  \<lparr>command_queue := command_queue (serve dumps loads ?st1 (Accepted conn)) @ [c2]\<rparr>)
             = r # []"
    by simp
  moreover have "later - later < t2"
    using assms(5) by simp
  ultimately have "fst (send_command_to_mt5 c2 t2 later (serve dumps loads ?st1 (Accepted conn)))
                     = Returned r"
    unfolding send_command_to_mt5_def by (simp only: wait_for_response_returns_head fst_conv)
  with first q show ?thesis by simp
qed

theorem late_response_goes_to_next_caller_witness:
  "fst (send_command_to_mt5 ''{\"action\": \"GET_ORDERS\"}'' 10 20
           (serve text_dumps loads_scalar
              (snd (snd (send_command_to_mt5 ''{\"action\": \"GET_STATS\"}'' 10 0
                           (fresh :: (string, scalar) bridge))))
              (Accepted (replies ''{\"action\": \"GET_STATS\"}'' [Data ''1000'']))))
     = Returned (Number 1000)"
  using late_response_goes_to_next_caller
    [where st = "fresh :: (string, scalar) bridge"
       and conn = "replies ''{\"action\": \"GET_STATS\"}'' [Data ''1000'']"
       and loads = loads_scalar and dumps = text_dumps and r = "Number 1000"
       and ?c1.0 = "''{\"action\": \"GET_STATS\"}''" and ?t1.0 = 10 and now = 0
       and ?c2.0 = "''{\"action\": \"GET_ORDERS\"}''" and ?t2.0 = 10 and later = 20]
  by (simp add: fresh_def replies_def text_dumps_def loads_scalar_def digit_def plain_def)

subsection \<open>A peer that closes the stream before a complete reply\<close>

text \<open>
  When the read loop ends at the end of the stream, \<open>response\<close> keeps the value it had
  before the connection. If the acceptor has parsed a reply on an earlier connection,
  that reply is printed and queued a second time and the connection is closed; if it has
  not, reading \<open>response\<close> raises, the handler prints the error, and \<open>close\<close> is never
  called.
\<close>

lemma serve_closed_stream:
  assumes "command_queue st = c # q" and "\<not> sendall_raises conn"
    and "recv_loop loads [] (peer conn (dumps c)) = Eof"
  shows "serve dumps loads st (Accepted conn) =
           (case response st of
              None \<Rightarrow>
                st\<lparr>command_queue := q,
                   stdout := stdout st @ [Connected, Sent (take 100 (dumps c)),
                                          ServerError UnboundLocalError],
                   sockets := sockets st @ [[Sendall (dumps c)]]\<rparr>
            | Some r \<Rightarrow>
                st\<lparr>command_queue := q,
                   stdout := stdout st @ [Connected, Sent (take 100 (dumps c)), Received r],
                   response_queue := response_queue st @ [r],
                   sockets := sockets st @ [[Sendall (dumps c), Close]]\<rparr>)"
  using assms
  by (simp add: serve_def attempt_def handle_client_def deliver_def Let_def split: option.splits)

text \<open>
  C3, on two runs. In the first, two commands are queued; the first client answers 1000,
  the second closes the stream without sending a byte: the response queue ends up
  holding 1000 twice, and nothing tells of a failure. In the second, the acceptor is
  fresh and the only client closes the stream at once: the error is printed, nothing is
  queued, and the socket has seen \<open>sendall\<close> but no \<open>close\<close>.
\<close>

theorem closed_stream_failing_inputs:
  "tcp_server text_dumps loads_scalar
     [Accepted (replies ''{\"action\": \"GET_STATS\"}'' [Data ''1000'']),
      Accepted (replies ''{\"action\": \"GET_ORDERS\"}'' [])]
     (fresh\<lparr>command_queue := [''{\"action\": \"GET_STATS\"}'', ''{\"action\": \"GET_ORDERS\"}'']\<rparr>)
   = \<lparr>command_queue = [], response_queue = [Number 1000, Number 1000], response = Some (Number 1000),
      stdout = [Connected, Sent ''{\"action\": \"GET_STATS\"}'', Received (Number 1000),
                Connected, Sent ''{\"action\": \"GET_ORDERS\"}'', Received (Number 1000)],
      sockets = [[Sendall ''{\"action\": \"GET_STATS\"}'', Close],
                 [Sendall ''{\"action\": \"GET_ORDERS\"}'', Close]]\<rparr>
   \<and> tcp_server text_dumps loads_scalar
       [Accepted (replies ''{\"action\": \"GET_ORDERS\"}'' [])]
       (fresh\<lparr>command_queue := [''{\"action\": \"GET_ORDERS\"}'']\<rparr>)
   = \<lparr>command_queue = [], response_queue = [], response = None,
      stdout = [Connected, Sent ''{\"action\": \"GET_ORDERS\"}'', ServerError UnboundLocalError],
      sockets = [[Sendall ''{\"action\": \"GET_ORDERS\"}'']]\<rparr>"
  by (simp add: tcp_server_def serve_def attempt_def handle_client_def deliver_def replies_def
        text_dumps_def loads_scalar_def digit_def plain_def fresh_def Let_def)

subsection \<open>The read loop and the chunk boundaries\<close>







subsection \<open>Errors on one connection and the accept loop\<close>

lemma attempt_sockets:
  "length (sockets (snd (attempt dumps loads st a)))
     = length (sockets st) + (if is_Accepted a then 1 else 0)"
proof (cases a)
  case AcceptRaises
  then show ?thesis by (simp add: attempt_def)
next
  case (Accepted conn)
  obtain res calls st' where
    h: "handle_client dumps loads conn (st\<lparr>stdout := stdout st @ [Connected]\<rparr>) = (res, calls, st')"
    by (metis prod_cases3)
  from handle_client_sockets [of dumps loads conn "st\<lparr>stdout := stdout st @ [Connected]\<rparr>"] h
  have "sockets st' = sockets st" by simp
  with h Accepted show ?thesis by (simp add: attempt_def)
qed

lemma serve_sockets_length:
  "length (sockets (serve dumps loads st a))
     = length (sockets st) + (if is_Accepted a then 1 else 0)"
proof -
  obtain res st' where h: "attempt dumps loads st a = (res, st')"
    by (cases "attempt dumps loads st a")
  with attempt_sockets [of dumps loads st a]
  have "length (sockets st') = length (sockets st) + (if is_Accepted a then 1 else 0)"
    by simp
  with h show ?thesis by (cases res) (simp_all add: serve_def)
qed

lemma tcp_server_sockets_length:
  "length (sockets (tcp_server dumps loads as st))
     = length (sockets st) + length (filter is_Accepted as)"
proof (induction as arbitrary: st)
  case Nil
  show ?case by (simp add: tcp_server_def)
next
  case (Cons a as)
  have "tcp_server dumps loads (a # as) st = tcp_server dumps loads as (serve dumps loads st a)"
    by (simp add: tcp_server_def)
  then show ?case
    by (simp add: Cons.IH serve_sockets_length)
qed

text \<open>
  C8. Whatever exception \<open>e\<close> the \<open>try\<close> block of a turn raises (a failed \<open>accept\<close>,
  \<open>sendall\<close> or \<open>recv\<close>, or the read of the unbound \<open>response\<close>), the turn ends with the
  handler's line for \<open>e\<close> printed after all that the block had done, and the loop goes on
  with the next outcome of \<open>accept\<close>. So in every run, every connection that is accepted
  is served, whatever went wrong on the ones before it: the sockets served are as many
  as the connections accepted.
\<close>

theorem acceptor_survives_errors:
  "(fst (attempt dumps loads st a) = Inl e \<longrightarrow>
      serve dumps loads st a =
        (snd (attempt dumps loads st a))
          \<lparr>stdout := stdout (snd (attempt dumps loads st a)) @ [ServerError e]\<rparr>)
   \<and> tcp_server dumps loads (a # as) st = tcp_server dumps loads as (serve dumps loads st a)
   \<and> length (sockets (tcp_server dumps loads (a # as) st))
       = length (sockets st) + length (filter is_Accepted (a # as))"
proof -
  have "serve dumps loads st a =
          (snd (attempt dumps loads st a))
            \<lparr>stdout := stdout (snd (attempt dumps loads st a)) @ [ServerError e]\<rparr>"
    if "fst (attempt dumps loads st a) = Inl e"
    using that by (cases "attempt dumps loads st a") (simp add: serve_def)
  moreover have "tcp_server dumps loads (a # as) st
                   = tcp_server dumps loads as (serve dumps loads st a)"
    by (simp add: tcp_server_def)
  ultimately show ?thesis
    using tcp_server_sockets_length [of dumps loads "a # as" st] by blast
qed

text \<open>A fresh acceptor with one queued command: the first client closes the stream
  without a reply, which raises; the error is printed and the two clients after it are
  served.\<close>

theorem acceptor_survives_errors_witness:
  "fst (attempt text_dumps loads_scalar
          ((fresh :: (string, scalar) bridge)\<lparr>command_queue := [''{\"action\": \"GET_STATS\"}'']\<rparr>)
          (Accepted (replies ''{\"action\": \"GET_STATS\"}'' []))) = Inl UnboundLocalError
   \<and> stdout (serve text_dumps loads_scalar
          ((fresh :: (string, scalar) bridge)\<lparr>command_queue := [''{\"action\": \"GET_STATS\"}'']\<rparr>)
          (Accepted (replies ''{\"action\": \"GET_STATS\"}'' [])))
     = [Connected, Sent ''{\"action\": \"GET_STATS\"}'', ServerError UnboundLocalError]
   \<and> length (sockets (tcp_server text_dumps loads_scalar
          [Accepted (replies ''{\"action\": \"GET_STATS\"}'' []), AcceptRaises,
           Accepted broken,
           Accepted (replies ''{\"status\":\"waiting\"}'' [])]
          ((fresh :: (string, scalar) bridge)\<lparr>command_queue := [''{\"action\": \"GET_STATS\"}'']\<rparr>)))
     = 3"
proof -
  have r: "fst (attempt text_dumps loads_scalar
          ((fresh :: (string, scalar) bridge)\<lparr>command_queue := [''{\"action\": \"GET_STATS\"}'']\<rparr>)
          (Accepted (replies ''{\"action\": \"GET_STATS\"}'' []))) = Inl UnboundLocalError"
    by (simp add: attempt_def handle_client_def deliver_def replies_def text_dumps_def
          fresh_def Let_def)
  show ?thesis
    using acceptor_survives_errors
      [of text_dumps loads_scalar
          "(fresh :: (string, scalar) bridge)\<lparr>command_queue := [''{\"action\": \"GET_STATS\"}'']\<rparr>"
          "Accepted (replies ''{\"action\": \"GET_STATS\"}'' [])" UnboundLocalError
          "[AcceptRaises, Accepted broken,
            Accepted (replies ''{\"status\":\"waiting\"}'' [])]"] r
    by (simp add: tcp_server_def serve_def attempt_def handle_client_def deliver_def
          replies_def broken_def text_dumps_def waiting_def fresh_def Let_def)
qed

end
